theory Spec2Isabelle
  imports Complex_Main "HOL-Library.Word"
begin

section \<open>The CVODE nonlinear solver interface (src/cvode/cvode_nls.c)\<close>

text \<open>
  A shallow embedding of the callbacks that CVODE hands to a SUNNonlinearSolver:
  the two system functions \<open>cvNlsResidual\<close> and \<open>cvNlsFPFunction\<close>, the linear
  setup and solve adapters \<open>cvNlsLSetup\<close> and \<open>cvNlsLSolve\<close>, the convergence test
  \<open>cvNlsConvTest\<close>, and the exported \<open>CVodeSetNonlinearSolver\<close>.

  Conventions of the embedding:
  \<^item> \<open>realtype\<close> (a C \<open>double\<close>) is the type \<open>real\<close>: arithmetic is exact, rounding is
    not modelled. Where the C code divides, the model says what happens for a zero
    divisor (see \<open>cvNlsConvTest\<close>), since HOL's \<open>x / 0 = 0\<close> is not what IEEE computes.
  \<^item> an \<open>N_Vector\<close> is the list of its components. All vectors of one integrator are
    clones of one template and have one common length.
  \<^item> the \<open>void*\<close> handle \<open>cvode_mem\<close> is a \<open>CVodeMem option\<close>, \<open>None\<close> being \<open>NULL\<close>.
    Each function returns its return code together with the objects it has written.
  \<^item> the counters (\<open>long int\<close> in C) are 64-bit words read as two's complement:
    an increment at \<open>LONG_MAX\<close> wraps around to \<open>LONG_MIN\<close>, as the compiled code does.
  \<^item> \<open>cvProcessError\<close> only reports a message; it is not part of the state here.
\<close>

subsection \<open>Constants\<close>

type_synonym realtype = real

text \<open>
  The type \<open>long int\<close> of the counters, 64 bits wide (the LP64 data model). \<open>+\<close> on
  it wraps around; \<open>sint\<close> reads the signed value, which lies between \<open>LONG_MIN\<close>
  and \<open>LONG_MAX\<close>.
\<close>

type_synonym long_int = "64 word"

definition LONG_MAX :: int where
  "LONG_MAX = 2 ^ 63 - 1"

definition LONG_MIN :: int where
  "LONG_MIN = - (2 ^ 63)"

definition ONE :: realtype where
  "ONE = 1"

definition NLS_MAXCOR :: int where
  "NLS_MAXCOR = 3"

definition CRDOWN :: realtype where
  "CRDOWN = 3 / 10"

definition RDIV :: realtype where
  "RDIV = 2"

text \<open>
  The return codes this file hands back. Their numeric values are macros of headers
  that are not part of the source at hand; the code only ever returns them by name, so
  they are the constructors of an enumeration.
\<close>

datatype retcode =
    CV_SUCCESS
  | CV_MEM_NULL
  | CV_ILL_INPUT
  | CV_LSETUP_FAIL
  | CV_LSOLVE_FAIL
  | CV_RHSFUNC_FAIL
  | RHSFUNC_RECVR
  | CV_NLS_INIT_FAIL
  | SUN_NLS_CONTINUE
  | SUN_NLS_CONV_RECVR

text \<open>The values stored in \<open>convfail\<close> (only \<open>CV_FAIL_BAD_J\<close> is written by this file).\<close>

datatype convfail_flag = CV_NO_FAILURES | CV_FAIL_BAD_J | CV_FAIL_OTHER

subsection \<open>Vector primitives\<close>

type_synonym N_Vector = "realtype list"

text \<open>
  Modelled from the spec: the vector kernels \<open>N_VLinearSum\<close>, \<open>N_VScale\<close> and
  \<open>N_VWrmsNorm\<close> belong to the NVECTOR module, which is not under src/. The spec
  describes them as the elementwise \<open>result = a*x + b*y\<close>, the elementwise
  \<open>result = s*x\<close>, and the root-mean-square norm in which each component is scaled by
  the corresponding weight. The destination argument of the C kernels is the value
  returned here.
\<close>

definition N_VLinearSum :: "realtype \<Rightarrow> N_Vector \<Rightarrow> realtype \<Rightarrow> N_Vector \<Rightarrow> N_Vector" where
  "N_VLinearSum a x b y = map2 (\<lambda>xi yi. a * xi + b * yi) x y"

definition N_VScale :: "realtype \<Rightarrow> N_Vector \<Rightarrow> N_Vector" where
  "N_VScale c x = map (\<lambda>xi. c * xi) x"

text \<open>
  The norm divides by the number of components. For an empty vector (and for a weight
  vector of another length, which the C kernel would read out of bounds) the model
  yields \<open>None\<close>.
\<close>

definition N_VWrmsNorm :: "N_Vector \<Rightarrow> N_Vector \<Rightarrow> realtype option" where
  "N_VWrmsNorm x w =
     (if 0 < length x \<and> length w = length x
      then Some (sqrt (sum_list (map2 (\<lambda>xi wi. (xi * wi)\<^sup>2) x w) / real (length x)))
      else None)"

text \<open>
  Modelled from the spec: the macros \<open>SUNMAX\<close> and \<open>SUNMIN\<close> of the SUNDIALS headers
  (not under src/), which the spec reads as \<open>max\<close> and \<open>min\<close>.
\<close>

definition SUNMAX :: "realtype \<Rightarrow> realtype \<Rightarrow> realtype" where
  "SUNMAX a b = (if a > b then a else b)"

definition SUNMIN :: "realtype \<Rightarrow> realtype \<Rightarrow> realtype" where
  "SUNMIN a b = (if a < b then a else b)"

subsection \<open>The integrator memory\<close>

text \<open>
  The user's right-hand-side function \<open>f(t, y, ydot, user_data)\<close>: it is given the
  time, the state and the output buffer, and returns its status together with the
  content of the output buffer afterwards. It has no access to the integrator memory.
\<close>

type_synonym CVRhsFn = "realtype \<Rightarrow> N_Vector \<Rightarrow> N_Vector \<Rightarrow> int \<times> N_Vector"

text \<open>An address of a nonlinear solver object; \<open>None\<close> is the \<open>NULL\<close> pointer.\<close>

type_synonym SUNNonlinearSolver = "nat option"

text \<open>
  The fields of \<open>struct CVodeMemRec\<close> that this file reads or writes. The array
  \<open>cv_zn\<close> has a fixed size in C and is only indexed at 0 and 1; it is a function of
  the index here.
\<close>

record CVodeMem =
  cv_f :: CVRhsFn
  cv_tn :: realtype
  cv_zn :: "nat \<Rightarrow> N_Vector"
  cv_y :: N_Vector
  cv_ftemp :: N_Vector
  cv_ewt :: N_Vector
  cv_vtemp1 :: N_Vector
  cv_vtemp2 :: N_Vector
  cv_vtemp3 :: N_Vector
  cv_rl1 :: realtype
  cv_gamma :: realtype
  cv_h :: realtype
  cv_crate :: realtype
  cv_gamrat :: realtype
  cv_gammap :: realtype
  cv_acnrm :: realtype
  cv_nfe :: long_int
  cv_nsetups :: long_int
  cv_nst :: long_int
  cv_nstlp :: long_int
  convfail :: convfail_flag
  cv_jcur :: bool
  NLS :: SUNNonlinearSolver

subsection \<open>The system functions\<close>

text \<open>
  \<open>cvNlsResidual ycor res cvode_mem\<close> returns the return code, the content of \<open>res\<close>
  afterwards and the integrator memory afterwards. \<open>ycor\<close> and \<open>res\<close> are vectors of
  the nonlinear solver, distinct from the integrator's own.
\<close>

definition cvNlsResidual ::
  "N_Vector \<Rightarrow> N_Vector \<Rightarrow> CVodeMem option \<Rightarrow> retcode \<times> N_Vector \<times> CVodeMem option" where
  "cvNlsResidual ycor res cvode_mem =
     (case cvode_mem of
        None \<Rightarrow> (CV_MEM_NULL, res, None)
      | Some cv_mem \<Rightarrow>
          let cv_mem = cv_mem\<lparr>cv_y := N_VLinearSum ONE (cv_zn cv_mem 0) ONE ycor\<rparr>;
              (retval, ftemp) = cv_f cv_mem (cv_tn cv_mem) (cv_y cv_mem) (cv_ftemp cv_mem);
              cv_mem = cv_mem\<lparr>cv_ftemp := ftemp\<rparr>;
              cv_mem = cv_mem\<lparr>cv_nfe := cv_nfe cv_mem + 1\<rparr>
          in if retval < 0 then (CV_RHSFUNC_FAIL, res, Some cv_mem)
             else if retval > 0 then (RHSFUNC_RECVR, res, Some cv_mem)
             else
               let res = N_VLinearSum (cv_rl1 cv_mem) (cv_zn cv_mem 1) ONE ycor;
                   res = N_VLinearSum (- cv_gamma cv_mem) (cv_ftemp cv_mem) ONE res
               in (CV_SUCCESS, res, Some cv_mem))"

text \<open>In \<open>cvNlsFPFunction\<close> the right-hand side writes into \<open>res\<close> itself.\<close>

definition cvNlsFPFunction ::
  "N_Vector \<Rightarrow> N_Vector \<Rightarrow> CVodeMem option \<Rightarrow> retcode \<times> N_Vector \<times> CVodeMem option" where
  "cvNlsFPFunction ycor res cvode_mem =
     (case cvode_mem of
        None \<Rightarrow> (CV_MEM_NULL, res, None)
      | Some cv_mem \<Rightarrow>
          let cv_mem = cv_mem\<lparr>cv_y := N_VLinearSum ONE (cv_zn cv_mem 0) ONE ycor\<rparr>;
              (retval, res) = cv_f cv_mem (cv_tn cv_mem) (cv_y cv_mem) res;
              cv_mem = cv_mem\<lparr>cv_nfe := cv_nfe cv_mem + 1\<rparr>
          in if retval < 0 then (CV_RHSFUNC_FAIL, res, Some cv_mem)
             else if retval > 0 then (RHSFUNC_RECVR, res, Some cv_mem)
             else
               let res = N_VLinearSum (cv_h cv_mem) res (- ONE) (cv_zn cv_mem 1);
                   res = N_VScale (cv_rl1 cv_mem) res
               in (CV_SUCCESS, res, Some cv_mem))"

subsection \<open>Nonlinear solver objects\<close>

text \<open>
  The type of the system function that is installed in a solver: the signature of
  \<open>cvNlsResidual\<close> and \<open>cvNlsFPFunction\<close>.
\<close>

type_synonym SUNNonlinSolSysFn =
  "N_Vector \<Rightarrow> N_Vector \<Rightarrow> CVodeMem option \<Rightarrow> retcode \<times> N_Vector \<times> CVodeMem option"

text \<open>
  The declared type of a solver. A C enumeration object can hold a value that is none
  of its enumerators, which is what the last branch of \<open>CVodeSetNonlinearSolver\<close>
  rejects; \<open>SUNNONLINEARSOLVER_OTHER v\<close> stands for such a value.
\<close>

datatype SUNNonlinearSolver_Type =
    SUNNONLINEARSOLVER_ROOTFIND
  | SUNNONLINEARSOLVER_FIXEDPOINT
  | SUNNONLINEARSOLVER_OTHER int

text \<open>
  Modelled from the spec: the generic solver object and its operation table are
  declared in a header that is not under src/. The spec names five mandatory
  capabilities (type query, initialize, solve, free, set-system-function), which
  \<open>CVodeSetNonlinearSolver\<close> tests against \<open>NULL\<close>: each is an optional function on the
  solver's private content \<open>'c\<close>, \<open>None\<close> being a \<open>NULL\<close> function pointer. The other
  three fields give what the solver answers to \<open>SUNNonlinSolSetConvTestFn\<close>,
  \<open>SUNNonlinSolSetMaxIters\<close> and \<open>SUNNonlinSolGetCurIter\<close>. An operation returns its
  \<open>int\<close> return code (and the content afterwards, when it writes it). \<open>initialize\<close> and
  \<open>solve\<close> are not called in this development, only compared with \<open>NULL\<close>.
\<close>

record 'c SUNNonlinearSolver_Ops =
  gettype :: "('c \<Rightarrow> SUNNonlinearSolver_Type) option"
  initialize :: "('c \<Rightarrow> int \<times> 'c) option"
  solve :: "('c \<Rightarrow> int \<times> 'c) option"
  free :: "('c \<Rightarrow> int) option"
  setsysfn :: "(SUNNonlinSolSysFn \<Rightarrow> 'c \<Rightarrow> int \<times> 'c) option"
  setctestfn :: "'c \<Rightarrow> int \<times> 'c"
  setmaxiters :: "int \<Rightarrow> 'c \<Rightarrow> int \<times> 'c"
  getcuriter :: "'c \<Rightarrow> int \<times> int"

record 'c generic_SUNNonlinearSolver =
  content :: 'c
  ops :: "'c SUNNonlinearSolver_Ops"

text \<open>
  The solver objects that are allocated, by address. Releasing an object removes its
  address; an access through an address that is not allocated is undefined behaviour
  in C and \<open>None\<close> here.
\<close>

type_synonym 'c nls_heap = "nat \<Rightarrow> 'c generic_SUNNonlinearSolver option"

text \<open>
  Modelled from the spec: \<open>SUNNonlinSolGetCurIter\<close> yields the return code and the
  current iteration index \<open>m\<close> "obtained from the driving solver".
\<close>

definition SUNNonlinSolGetCurIter :: "'c generic_SUNNonlinearSolver \<Rightarrow> int \<times> int" where
  "SUNNonlinSolGetCurIter nls = getcuriter (ops nls) (content nls)"

text \<open>
  Modelled from the spec: \<open>SUNNonlinSolFree\<close> "releases" the solver through its
  \<open>free\<close> operation. The return code of that operation is dropped: the caller
  overwrites it before reading it.
\<close>

definition SUNNonlinSolFree :: "nat \<Rightarrow> 'c nls_heap \<Rightarrow> 'c nls_heap option" where
  "SUNNonlinSolFree a heap =
     (case heap a of
        None \<Rightarrow> None
      | Some obj \<Rightarrow>
          (case free (ops obj) of
             None \<Rightarrow> None
           | Some fr \<Rightarrow> Some (heap(a := None))))"

text \<open>Modelled from the spec: the type query asks the solver's \<open>gettype\<close> operation.\<close>

definition SUNNonlinSolGetType :: "nat \<Rightarrow> 'c nls_heap \<Rightarrow> SUNNonlinearSolver_Type option" where
  "SUNNonlinSolGetType a heap =
     (case heap a of
        None \<Rightarrow> None
      | Some obj \<Rightarrow>
          (case gettype (ops obj) of
             None \<Rightarrow> None
           | Some gt \<Rightarrow> Some (gt (content obj))))"

text \<open>
  Modelled from the spec: the three setters hand their argument to the solver's
  operation, which answers with a return code and may write the solver's content.
\<close>

definition SUNNonlinSolSetSysFn ::
  "nat \<Rightarrow> SUNNonlinSolSysFn \<Rightarrow> 'c nls_heap \<Rightarrow> (int \<times> 'c nls_heap) option" where
  "SUNNonlinSolSetSysFn a SysFn heap =
     (case heap a of
        None \<Rightarrow> None
      | Some obj \<Rightarrow>
          (case setsysfn (ops obj) of
             None \<Rightarrow> None
           | Some op \<Rightarrow>
               let (retval, c) = op SysFn (content obj)
               in Some (retval, heap(a \<mapsto> obj\<lparr>content := c\<rparr>))))"

definition SUNNonlinSolSetConvTestFn :: "nat \<Rightarrow> 'c nls_heap \<Rightarrow> (int \<times> 'c nls_heap) option" where
  "SUNNonlinSolSetConvTestFn a heap =
     (case heap a of
        None \<Rightarrow> None
      | Some obj \<Rightarrow>
          let (retval, c) = setctestfn (ops obj) (content obj)
          in Some (retval, heap(a \<mapsto> obj\<lparr>content := c\<rparr>)))"

definition SUNNonlinSolSetMaxIters ::
  "nat \<Rightarrow> int \<Rightarrow> 'c nls_heap \<Rightarrow> (int \<times> 'c nls_heap) option" where
  "SUNNonlinSolSetMaxIters a maxiters heap =
     (case heap a of
        None \<Rightarrow> None
      | Some obj \<Rightarrow>
          let (retval, c) = setmaxiters (ops obj) maxiters (content obj)
          in Some (retval, heap(a \<mapsto> obj\<lparr>content := c\<rparr>)))"

subsection \<open>Installing a nonlinear solver\<close>

text \<open>
  \<open>CVodeSetNonlinearSolver cvode_mem nls heap\<close> returns the return code, the
  integrator memory and the solver objects afterwards, or \<open>None\<close> where the C code
  reads through a pointer to an object that is not allocated. \<open>CV_SUCCESS\<close> is the
  \<open>int\<close> 0, with which the return code of a solver operation is compared. In the
  branch on the solver type, \<open>Inl\<close> is the early return of the last \<open>else\<close> and
  \<open>Inr\<close> carries \<open>retval\<close> on to the test that follows.
\<close>

definition CVodeSetNonlinearSolver ::
  "CVodeMem option \<Rightarrow> SUNNonlinearSolver \<Rightarrow> 'c nls_heap \<Rightarrow>
     (retcode \<times> CVodeMem option \<times> 'c nls_heap) option" where
  "CVodeSetNonlinearSolver cvode_mem nls heap =
     (case cvode_mem of
        None \<Rightarrow> Some (CV_MEM_NULL, None, heap)
      | Some cv_mem \<Rightarrow>
     (case nls of
        None \<Rightarrow> Some (CV_ILL_INPUT, Some cv_mem, heap)
      | Some a \<Rightarrow>
     (case heap a of
        None \<Rightarrow> None
      | Some obj \<Rightarrow>
          if gettype (ops obj) = None \<or> initialize (ops obj) = None \<or>
             solve (ops obj) = None \<or> free (ops obj) = None \<or> setsysfn (ops obj) = None
          then Some (CV_ILL_INPUT, Some cv_mem, heap)
          else
     (case (case NLS cv_mem of None \<Rightarrow> Some heap | Some old \<Rightarrow> SUNNonlinSolFree old heap) of
        None \<Rightarrow> None
      | Some heap \<Rightarrow>
          let cv_mem = cv_mem\<lparr>NLS := Some a\<rparr> in
     (case SUNNonlinSolGetType a heap of
        None \<Rightarrow> None
      | Some ty \<Rightarrow>
     (case (if ty = SUNNONLINEARSOLVER_ROOTFIND
              then map_option Inr (SUNNonlinSolSetSysFn a cvNlsResidual heap)
            else if ty = SUNNONLINEARSOLVER_FIXEDPOINT
              then map_option Inr (SUNNonlinSolSetSysFn a cvNlsFPFunction heap)
            else Some (Inl CV_ILL_INPUT)) of
        None \<Rightarrow> None
      | Some (Inl e) \<Rightarrow> Some (e, Some cv_mem, heap)
      | Some (Inr (retval, heap)) \<Rightarrow>
          if retval \<noteq> 0 then Some (CV_ILL_INPUT, Some cv_mem, heap)
          else
     (case SUNNonlinSolSetConvTestFn a heap of
        None \<Rightarrow> None
      | Some (retval, heap) \<Rightarrow>
          if retval \<noteq> 0 then Some (CV_ILL_INPUT, Some cv_mem, heap)
          else
     (case SUNNonlinSolSetMaxIters a NLS_MAXCOR heap of
        None \<Rightarrow> None
      | Some (retval, heap) \<Rightarrow>
          if retval \<noteq> 0 then Some (CV_ILL_INPUT, Some cv_mem, heap)
          else Some (CV_SUCCESS, Some cv_mem, heap)))))))))"

subsection \<open>The linear setup and solve adapters\<close>

text \<open>
  The routines \<open>cv_lsetup\<close> and \<open>cv_lsolve\<close> are function pointers stored in the
  integrator memory and are handed the integrator memory itself, so they may write any
  field of it. They are arguments of the model: a function from the memory (which holds
  every other argument of the C call: \<open>convfail\<close>, \<open>cv_y\<close>, \<open>cv_ftemp\<close>, \<open>cv_jcur\<close>, the
  scratch vectors, \<open>cv_ewt\<close>) to the return code and the memory afterwards. The
  adapters are installed only for a routine that is not \<open>NULL\<close>.
\<close>

type_synonym CVLSetupFn = "CVodeMem \<Rightarrow> int \<times> CVodeMem"

type_synonym CVLSolveFn = "CVodeMem \<Rightarrow> N_Vector \<Rightarrow> int \<times> N_Vector \<times> CVodeMem"

text \<open>
  \<open>cvNlsLSetup cv_lsetup ycor res jbad jcur cvode_mem\<close> returns the return code, the
  content of \<open>*jcur\<close> afterwards and the integrator memory afterwards.
\<close>

definition cvNlsLSetup ::
  "CVLSetupFn \<Rightarrow> N_Vector \<Rightarrow> N_Vector \<Rightarrow> bool \<Rightarrow> bool \<Rightarrow> CVodeMem option \<Rightarrow>
     retcode \<times> bool \<times> CVodeMem option" where
  "cvNlsLSetup cv_lsetup ycor res jbad jcur cvode_mem =
     (case cvode_mem of
        None \<Rightarrow> (CV_MEM_NULL, jcur, None)
      | Some cv_mem \<Rightarrow>
          let cv_mem = (if jbad then cv_mem\<lparr>convfail := CV_FAIL_BAD_J\<rparr> else cv_mem);
              (retval, cv_mem) = cv_lsetup cv_mem;
              cv_mem = cv_mem\<lparr>cv_nsetups := cv_nsetups cv_mem + 1\<rparr>;
              jcur = cv_jcur cv_mem;
              cv_mem = cv_mem\<lparr>cv_crate := ONE\<rparr>;
              cv_mem = cv_mem\<lparr>cv_gamrat := cv_crate cv_mem\<rparr>;
              cv_mem = cv_mem\<lparr>cv_gammap := cv_gamma cv_mem\<rparr>;
              cv_mem = cv_mem\<lparr>cv_nstlp := cv_nst cv_mem\<rparr>
          in if retval < 0 then (CV_LSETUP_FAIL, jcur, Some cv_mem)
             else if retval > 0 then (SUN_NLS_CONV_RECVR, jcur, Some cv_mem)
             else (CV_SUCCESS, jcur, Some cv_mem))"

text \<open>
  \<open>cvNlsLSolve cv_lsolve ycor delta cvode_mem\<close> returns the return code, the content
  of \<open>delta\<close> afterwards and the integrator memory afterwards.
\<close>

definition cvNlsLSolve ::
  "CVLSolveFn \<Rightarrow> N_Vector \<Rightarrow> N_Vector \<Rightarrow> CVodeMem option \<Rightarrow>
     retcode \<times> N_Vector \<times> CVodeMem option" where
  "cvNlsLSolve cv_lsolve ycor delta cvode_mem =
     (case cvode_mem of
        None \<Rightarrow> (CV_MEM_NULL, delta, None)
      | Some cv_mem \<Rightarrow>
          let (retval, delta, cv_mem) = cv_lsolve cv_mem delta
          in if retval < 0 then (CV_LSOLVE_FAIL, delta, Some cv_mem)
             else if retval > 0 then (SUN_NLS_CONV_RECVR, delta, Some cv_mem)
             else (CV_SUCCESS, delta, Some cv_mem))"

subsection \<open>The convergence test\<close>

text \<open>
  A quotient of two reals as the C code computes it. With a zero divisor IEEE
  arithmetic produces an infinity or a NaN, which the real numbers do not have: the
  model yields \<open>None\<close> there.
\<close>

definition rdiv :: "realtype \<Rightarrow> realtype \<Rightarrow> realtype option" where
  "rdiv a b = (if b = 0 then None else Some (a / b))"

text \<open>
  The variable \<open>delp\<close> has static storage duration: it is an argument and a result of
  the model. \<open>cvNlsConvTest nls ycor delta tol ewt cvode_mem delp\<close> returns the return
  code, the integrator memory afterwards and \<open>delp\<close> afterwards; it is \<open>None\<close> where a
  norm or a quotient is.
\<close>

definition cvNlsConvTest ::
  "'c generic_SUNNonlinearSolver \<Rightarrow> N_Vector \<Rightarrow> N_Vector \<Rightarrow> realtype \<Rightarrow> N_Vector \<Rightarrow>
     CVodeMem option \<Rightarrow> realtype \<Rightarrow> (retcode \<times> CVodeMem option \<times> realtype) option" where
  "cvNlsConvTest nls ycor delta tol ewt cvode_mem delp =
     (case cvode_mem of
        None \<Rightarrow> Some (CV_MEM_NULL, None, delp)
      | Some cv_mem \<Rightarrow>
     (case N_VWrmsNorm delta ewt of
        None \<Rightarrow> None
      | Some del \<Rightarrow>
          let (retval, m) = SUNNonlinSolGetCurIter nls in
          if retval \<noteq> 0 then Some (CV_MEM_NULL, Some cv_mem, delp)
          else
     (case (if m > 0
            then map_option
                   (\<lambda>ratio. cv_mem\<lparr>cv_crate := SUNMAX (CRDOWN * cv_crate cv_mem) ratio\<rparr>)
                   (rdiv del delp)
            else Some cv_mem) of
        None \<Rightarrow> None
      | Some cv_mem \<Rightarrow>
     (case rdiv (del * SUNMIN ONE (cv_crate cv_mem)) tol of
        None \<Rightarrow> None
      | Some dcon \<Rightarrow>
          if dcon \<le> ONE then
            (case (if m = 0 then Some del else N_VWrmsNorm ycor (cv_ewt cv_mem)) of
               None \<Rightarrow> None
             | Some acnrm \<Rightarrow> Some (CV_SUCCESS, Some (cv_mem\<lparr>cv_acnrm := acnrm\<rparr>), delp))
          else if m \<ge> 1 \<and> del > RDIV * delp then Some (SUN_NLS_CONV_RECVR, Some cv_mem, delp)
          else Some (SUN_NLS_CONTINUE, Some cv_mem, del)))))"

subsection \<open>Example inputs\<close>

text \<open>
  The integrator memory of the spec's end-to-end scenario: one component,
  \<open>historyVectors[0] = [1.0]\<close>, \<open>historyVectors[1] = [0.5]\<close>, \<open>rl1 = 1.0\<close>,
  \<open>gamma = 0.1\<close>, and a right-hand side that returns status 0 and the value \<open>[2.0]\<close>.
\<close>

definition scenario_mem :: CVodeMem where
  "scenario_mem =
     \<lparr>cv_f = (\<lambda>t y ydot. (0, [2])), cv_tn = 0,
      cv_zn = (\<lambda>j. if j = 0 then [1] else [1 / 2]),
      cv_y = [0], cv_ftemp = [0], cv_ewt = [1],
      cv_vtemp1 = [0], cv_vtemp2 = [0], cv_vtemp3 = [0],
      cv_rl1 = 1, cv_gamma = 1 / 10, cv_h = 1 / 10,
      cv_crate = 1, cv_gamrat = 1, cv_gammap = 1 / 10, cv_acnrm = 0,
      cv_nfe = 0, cv_nsetups = 0, cv_nst = 0, cv_nstlp = 0,
      convfail = CV_NO_FAILURES, cv_jcur = False, NLS = None\<rparr>"

text \<open>A right-hand side that fails with the given status and leaves its buffer alone.\<close>

definition failing_rhs :: "int \<Rightarrow> CVRhsFn" where
  "failing_rhs status = (\<lambda>t y ydot. (status, ydot))"

text \<open>
  A solver whose private content is its iteration counter, and whose operations all
  succeed.
\<close>

definition solver_ops :: "SUNNonlinearSolver_Type \<Rightarrow> int SUNNonlinearSolver_Ops" where
  "solver_ops ty =
     \<lparr>gettype = Some (\<lambda>c. ty), initialize = Some (\<lambda>c. (0, c)), solve = Some (\<lambda>c. (0, c)),
      free = Some (\<lambda>c. 0), setsysfn = Some (\<lambda>SysFn c. (0, c)),
      setctestfn = (\<lambda>c. (0, c)), setmaxiters = (\<lambda>maxiters c. (0, c)),
      getcuriter = (\<lambda>c. (0, c))\<rparr>"

definition solver_at :: "int \<Rightarrow> int generic_SUNNonlinearSolver" where
  "solver_at m = \<lparr>content = m, ops = solver_ops SUNNONLINEARSOLVER_ROOTFIND\<rparr>"

text \<open>
  Three solver objects: an installed root-finding solver at address 0, a candidate at
  address 1 that declares a type which is neither root-finding nor fixed-point, and a
  candidate at address 2 that lacks the \<open>solve\<close> operation.
\<close>

definition example_heap :: "int nls_heap" where
  "example_heap =
     [0 \<mapsto> solver_at 0,
      1 \<mapsto> \<lparr>content = 0, ops = solver_ops (SUNNONLINEARSOLVER_OTHER 7)\<rparr>,
      2 \<mapsto> \<lparr>content = 0, ops = (solver_ops SUNNONLINEARSOLVER_ROOTFIND)\<lparr>solve := None\<rparr>\<rparr>]"

section \<open>Properties\<close>

subsection \<open>Auxiliary facts\<close>

lemma length_N_VLinearSum:
  "length (N_VLinearSum a x b y) = min (length x) (length y)"
  by (simp add: N_VLinearSum_def)

lemma nth_N_VLinearSum:
  "i < length x \<Longrightarrow> i < length y \<Longrightarrow> N_VLinearSum a x b y ! i = a * x ! i + b * y ! i"
  by (simp add: N_VLinearSum_def)

lemma length_N_VScale: "length (N_VScale c x) = length x"
  by (simp add: N_VScale_def)

lemma nth_N_VScale: "i < length x \<Longrightarrow> N_VScale c x ! i = c * x ! i"
  by (simp add: N_VScale_def)

lemma N_VWrmsNorm_single: "N_VWrmsNorm [x] [w] = Some \<bar>x * w\<bar>"
  by (simp add: N_VWrmsNorm_def)

lemma singleton_list: "length xs = 1 \<Longrightarrow> xs ! 0 = a \<Longrightarrow> xs = [a]"
  by (cases xs) auto

lemma SUNMAX_max: "SUNMAX a b = max a b"
  by (simp add: SUNMAX_def max_def)

lemma SUNMIN_min: "SUNMIN a b = min a b"
  by (simp add: SUNMIN_def min_def)

lemma GetCurIter_solver_at: "SUNNonlinSolGetCurIter (solver_at m) = (0, m)"
  by (simp add: SUNNonlinSolGetCurIter_def solver_at_def solver_ops_def)

lemma sint_long_int_succ:
  fixes n :: long_int
  assumes "sint n < LONG_MAX"
  shows "sint (n + 1) = sint n + 1"
proof -
  have lower: "- (2 ^ 63) \<le> sint n"
    using sint_ge [of n] by simp
  have "sint (n + 1) = signed_take_bit 63 (sint n + 1)"
    by (simp add: sint_word_ariths)
  also have "\<dots> = sint n + 1"
    using lower assms by (intro signed_take_bit_int_eq_self) (simp_all add: LONG_MAX_def)
  finally show ?thesis .
qed

lemma sint_long_int_wraps: "sint (word_of_int LONG_MAX + 1 :: long_int) = LONG_MIN"
  by (simp add: LONG_MAX_def LONG_MIN_def)

lemma crate_floor_pos: "0 < (c::real) \<Longrightarrow> 0 < max (3 / 10 * c) q"
  by (simp add: max_def)

lemmas convtest_defs =
  cvNlsConvTest_def SUNMAX_max SUNMIN_min ONE_def CRDOWN_def RDIV_def rdiv_def

text \<open>
  Within one solve at a positive tolerance, a call that answers \<open>SUN_NLS_CONTINUE\<close>
  leaves a \<open>delp\<close> above the tolerance; with such a \<open>delp\<close>, an increment norm above
  \<open>2 * delp\<close> makes \<open>dcon\<close> exceed 1.
\<close>

lemma N_VWrmsNorm_nonneg: "N_VWrmsNorm x w = Some d \<Longrightarrow> 0 \<le> d"
  by (auto simp add: N_VWrmsNorm_def split: if_splits
      intro!: divide_nonneg_nonneg sum_list_nonneg)

lemma dcon_exceeds_one:
  fixes del delp tol c :: real
  assumes "0 < tol" and "tol < delp" and "del > 2 * delp"
  shows "del * min 1 (max (3 / 10 * c) (del / delp)) / tol > 1"
proof -
  from assms have "delp > 0" by simp
  with assms have "del / delp > 2" by (simp add: field_simps)
  then have "min 1 (max (3 / 10 * c) (del / delp)) = 1" by simp
  moreover from assms have "del > tol" by simp
  ultimately show ?thesis using assms by simp
qed

lemma clamped_product_bound: "0 \<le> d \<Longrightarrow> \<not> d * min 1 c \<le> tol \<Longrightarrow> tol < (d::real)"
proof -
  assume "0 \<le> d" and "\<not> d * min 1 c \<le> tol"
  then have "tol < d * min 1 c" by simp
  also have "\<dots> \<le> d * 1" using \<open>0 \<le> d\<close> by (intro mult_left_mono) simp_all
  finally show ?thesis by simp
qed

lemma continue_leaves_delp_above_tol:
  assumes "cvNlsConvTest nls ycor delta tol ewt (Some cv_mem) delp
             = Some (SUN_NLS_CONTINUE, cv_mem', delp')"
    and "0 < tol"
  shows "tol < delp'"
  using assms
  by (auto simp add: convtest_defs split: option.splits prod.splits if_splits
      dest!: N_VWrmsNorm_nonneg dest: clamped_product_bound)

subsection \<open>The residual evaluator\<close>

text \<open>
  C4. When the right-hand side returns status 0, \<open>cvNlsResidual\<close> succeeds, leaves
  \<open>currentSolution = historyVectors[0] + ycor\<close> in \<open>cv_y\<close> and produces the residual
  \<open>rl1 * historyVectors[1] + ycor - gamma * rhsOutput\<close>, component by component.
\<close>

theorem cvNlsResidual_success:
  assumes rhs: "cv_f cv_mem (cv_tn cv_mem) (N_VLinearSum ONE (cv_zn cv_mem 0) ONE ycor)
                  (cv_ftemp cv_mem) = (0, rhsOutput)"
    and len: "length (cv_zn cv_mem 0) = n" "length (cv_zn cv_mem 1) = n"
             "length ycor = n" "length rhsOutput = n"
  shows "\<exists>res' cv_mem'.
           cvNlsResidual ycor res (Some cv_mem) = (CV_SUCCESS, res', Some cv_mem') \<and>
           length (cv_y cv_mem') = n \<and>
           (\<forall>i<n. cv_y cv_mem' ! i = cv_zn cv_mem 0 ! i + ycor ! i) \<and>
           length res' = n \<and>
           (\<forall>i<n. res' ! i =
              cv_rl1 cv_mem * cv_zn cv_mem 1 ! i + ycor ! i - cv_gamma cv_mem * rhsOutput ! i)"
  using rhs len
  by (simp add: cvNlsResidual_def Let_def ONE_def length_N_VLinearSum nth_N_VLinearSum)

text \<open>
  The scenario of the spec: with \<open>ycor = [0.0]\<close> the evaluator produces
  \<open>currentSolution = [1.0]\<close> and the residual \<open>[0.3]\<close>.
\<close>

theorem cvNlsResidual_success_witness:
  "\<exists>res' cv_mem'.
     cvNlsResidual [0] [0] (Some scenario_mem) = (CV_SUCCESS, res', Some cv_mem') \<and>
     cv_y cv_mem' = [1] \<and> res' = [3 / 10]"
proof -
  have rhs: "cv_f scenario_mem (cv_tn scenario_mem)
               (N_VLinearSum ONE (cv_zn scenario_mem 0) ONE [0]) (cv_ftemp scenario_mem) = (0, [2])"
    by (simp add: scenario_mem_def)
  have len: "length (cv_zn scenario_mem 0) = 1" "length (cv_zn scenario_mem 1) = 1"
    "length [0::real] = 1" "length [2::real] = 1"
    by (simp_all add: scenario_mem_def)
  from cvNlsResidual_success [OF rhs len, of "[0]"]
  obtain res' cv_mem' where
    r: "cvNlsResidual [0] [0] (Some scenario_mem) = (CV_SUCCESS, res', Some cv_mem')"
    and ly: "length (cv_y cv_mem') = 1"
    and y: "\<forall>i<1. cv_y cv_mem' ! i = cv_zn scenario_mem 0 ! i + [0] ! i"
    and lr: "length res' = 1"
    and rs: "\<forall>i<1. res' ! i = cv_rl1 scenario_mem * cv_zn scenario_mem 1 ! i + [0] ! i
               - cv_gamma scenario_mem * [2] ! i"
    by blast
  from y have "cv_y cv_mem' ! 0 = 1" by (simp add: scenario_mem_def)
  with ly have y1: "cv_y cv_mem' = [1]" by (rule singleton_list)
  from rs have "res' ! 0 = 3 / 10" by (simp add: scenario_mem_def)
  with lr have "res' = [3 / 10]" by (rule singleton_list)
  with r y1 show ?thesis by blast
qed

subsection \<open>The fixed-point function\<close>

text \<open>
  C5. When the right-hand side returns status 0, \<open>cvNlsFPFunction\<close> succeeds, leaves
  \<open>currentSolution = historyVectors[0] + ycor\<close> in \<open>cv_y\<close> and produces
  \<open>rl1 * (stepSize * rhsOutput - historyVectors[1])\<close>, component by component.
\<close>

theorem cvNlsFPFunction_success:
  assumes rhs: "cv_f cv_mem (cv_tn cv_mem) (N_VLinearSum ONE (cv_zn cv_mem 0) ONE ycor) res
                  = (0, rhsOutput)"
    and len: "length (cv_zn cv_mem 0) = n" "length (cv_zn cv_mem 1) = n"
             "length ycor = n" "length rhsOutput = n"
  shows "\<exists>res' cv_mem'.
           cvNlsFPFunction ycor res (Some cv_mem) = (CV_SUCCESS, res', Some cv_mem') \<and>
           length (cv_y cv_mem') = n \<and>
           (\<forall>i<n. cv_y cv_mem' ! i = cv_zn cv_mem 0 ! i + ycor ! i) \<and>
           length res' = n \<and>
           (\<forall>i<n. res' ! i =
              cv_rl1 cv_mem * (cv_h cv_mem * rhsOutput ! i - cv_zn cv_mem 1 ! i))"
  using rhs len
  by (simp add: cvNlsFPFunction_def Let_def ONE_def length_N_VLinearSum nth_N_VLinearSum
      length_N_VScale nth_N_VScale)

text \<open>In the scenario memory, with step size 0.1: \<open>1.0 * (0.1 * 2.0 - 0.5) = -0.3\<close>.\<close>

theorem cvNlsFPFunction_success_witness:
  "\<exists>res' cv_mem'.
     cvNlsFPFunction [0] [0] (Some scenario_mem) = (CV_SUCCESS, res', Some cv_mem') \<and>
     cv_y cv_mem' = [1] \<and> res' = [- (3 / 10)]"
proof -
  have rhs: "cv_f scenario_mem (cv_tn scenario_mem)
               (N_VLinearSum ONE (cv_zn scenario_mem 0) ONE [0]) [0] = (0, [2])"
    by (simp add: scenario_mem_def)
  have len: "length (cv_zn scenario_mem 0) = 1" "length (cv_zn scenario_mem 1) = 1"
    "length [0::real] = 1" "length [2::real] = 1"
    by (simp_all add: scenario_mem_def)
  from cvNlsFPFunction_success [OF rhs len]
  obtain res' cv_mem' where
    r: "cvNlsFPFunction [0] [0] (Some scenario_mem) = (CV_SUCCESS, res', Some cv_mem')"
    and ly: "length (cv_y cv_mem') = 1"
    and y: "\<forall>i<1. cv_y cv_mem' ! i = cv_zn scenario_mem 0 ! i + [0] ! i"
    and lr: "length res' = 1"
    and rs: "\<forall>i<1. res' ! i =
               cv_rl1 scenario_mem * (cv_h scenario_mem * [2] ! i - cv_zn scenario_mem 1 ! i)"
    by blast
  from y have "cv_y cv_mem' ! 0 = 1" by (simp add: scenario_mem_def)
  with ly have y1: "cv_y cv_mem' = [1]" by (rule singleton_list)
  from rs have "res' ! 0 = - (3 / 10)" by (simp add: scenario_mem_def)
  with lr have "res' = [- (3 / 10)]" by (rule singleton_list)
  with r y1 show ?thesis by blast
qed

subsection \<open>The evaluation counter and the state on failure\<close>

text \<open>
  C6. A call of \<open>cvNlsResidual\<close> or \<open>cvNlsFPFunction\<close> with an integrator memory
  reaches the right-hand side and increments the counter \<open>cv_nfe\<close> by 1, whatever
  status the right-hand side returns: the 64-bit counter is one more in machine
  arithmetic, and its signed value is one more whenever it was below \<open>LONG_MAX\<close>.
\<close>

theorem nfe_incremented:
  "(\<exists>r res' cv_mem'. cvNlsResidual ycor res (Some cv_mem) = (r, res', Some cv_mem') \<and>
       cv_nfe cv_mem' = cv_nfe cv_mem + 1 \<and>
       (sint (cv_nfe cv_mem) < LONG_MAX \<longrightarrow>
          sint (cv_nfe cv_mem') = sint (cv_nfe cv_mem) + 1)) \<and>
   (\<exists>r res' cv_mem'. cvNlsFPFunction ycor res (Some cv_mem) = (r, res', Some cv_mem') \<and>
       cv_nfe cv_mem' = cv_nfe cv_mem + 1 \<and>
       (sint (cv_nfe cv_mem) < LONG_MAX \<longrightarrow>
          sint (cv_nfe cv_mem') = sint (cv_nfe cv_mem) + 1))"
  by (simp add: cvNlsResidual_def cvNlsFPFunction_def Let_def sint_long_int_succ
      split: prod.splits)

text \<open>
  With a right-hand side that fails fatally the counter goes from 41 to 42, for both
  functions.
\<close>

theorem nfe_incremented_witness:
  "sint (41 :: long_int) < LONG_MAX \<and>
   (\<exists>r res' cv_mem'.
      cvNlsResidual [0] [0] (Some (scenario_mem\<lparr>cv_f := failing_rhs (- 1), cv_nfe := 41\<rparr>))
        = (r, res', Some cv_mem') \<and> cv_nfe cv_mem' = 42 \<and> sint (cv_nfe cv_mem') = 42) \<and>
   (\<exists>r res' cv_mem'.
      cvNlsFPFunction [0] [0] (Some (scenario_mem\<lparr>cv_f := failing_rhs (- 1), cv_nfe := 41\<rparr>))
        = (r, res', Some cv_mem') \<and> cv_nfe cv_mem' = 42 \<and> sint (cv_nfe cv_mem') = 42)"
proof -
  have below: "sint (41 :: long_int) < LONG_MAX"
    by (simp add: LONG_MAX_def)
  with nfe_incremented
         [of "[0]" "[0]" "scenario_mem\<lparr>cv_f := failing_rhs (- 1), cv_nfe := 41\<rparr>"]
  show ?thesis
    by auto
qed

text \<open>
  At \<open>LONG_MAX\<close> the increment wraps: the signed value of the counter afterwards is
  \<open>LONG_MIN\<close>.
\<close>

lemma nfe_wraps_at_LONG_MAX:
  "\<exists>r res' cv_mem'.
     cvNlsResidual [0] [0] (Some (scenario_mem\<lparr>cv_nfe := word_of_int LONG_MAX\<rparr>))
       = (r, res', Some cv_mem') \<and> sint (cv_nfe cv_mem') = LONG_MIN"
  by (simp add: cvNlsResidual_def Let_def sint_long_int_wraps split: prod.splits)

text \<open>
  C9. Both system functions overwrite \<open>cv_y\<close> with \<open>historyVectors[0] + ycor\<close> before
  they evaluate the right-hand side (which is called at that vector). When the
  right-hand side reports a failure, the function returns the fatal or the recoverable
  failure code and \<open>cv_y\<close> holds the new vector: the failure return does not restore it.
\<close>

theorem rhs_failure_not_atomic:
  assumes y': "y' = N_VLinearSum ONE (cv_zn cv_mem 0) ONE ycor"
    and fail1: "fst (cv_f cv_mem (cv_tn cv_mem) y' (cv_ftemp cv_mem)) \<noteq> 0"
    and fail2: "fst (cv_f cv_mem (cv_tn cv_mem) y' res) \<noteq> 0"
  shows "(\<exists>r cv_mem'. cvNlsResidual ycor res (Some cv_mem) = (r, res, Some cv_mem') \<and>
            (r = CV_RHSFUNC_FAIL \<or> r = RHSFUNC_RECVR) \<and> cv_y cv_mem' = y') \<and>
         (\<exists>r res' cv_mem'. cvNlsFPFunction ycor res (Some cv_mem) = (r, res', Some cv_mem') \<and>
            (r = CV_RHSFUNC_FAIL \<or> r = RHSFUNC_RECVR) \<and> cv_y cv_mem' = y')"
  using assms
  by (auto simp add: cvNlsResidual_def cvNlsFPFunction_def Let_def split: prod.splits)

text \<open>
  A right-hand side that reports a recoverable failure: \<open>cv_y\<close> was \<open>[0]\<close> before the
  call and is \<open>[1]\<close> after the failed call.
\<close>

theorem rhs_failure_not_atomic_witness:
  "cv_y scenario_mem = [0] \<and>
   (\<exists>r cv_mem'.
      cvNlsResidual [0] [0] (Some (scenario_mem\<lparr>cv_f := failing_rhs 1\<rparr>))
        = (r, [0], Some cv_mem') \<and>
      (r = CV_RHSFUNC_FAIL \<or> r = RHSFUNC_RECVR) \<and> cv_y cv_mem' = [1]) \<and>
   (\<exists>r res' cv_mem'.
      cvNlsFPFunction [0] [0] (Some (scenario_mem\<lparr>cv_f := failing_rhs 1\<rparr>))
        = (r, res', Some cv_mem') \<and>
      (r = CV_RHSFUNC_FAIL \<or> r = RHSFUNC_RECVR) \<and> cv_y cv_mem' = [1])"
proof -
  let ?m = "scenario_mem\<lparr>cv_f := failing_rhs 1\<rparr>"
  have y': "[1] = N_VLinearSum ONE (cv_zn ?m 0) ONE [0]"
    by (simp add: scenario_mem_def N_VLinearSum_def ONE_def)
  have f1: "fst (cv_f ?m (cv_tn ?m) [1] (cv_ftemp ?m)) \<noteq> 0"
    by (simp add: failing_rhs_def)
  have f2: "fst (cv_f ?m (cv_tn ?m) [1] [0]) \<noteq> 0"
    by (simp add: failing_rhs_def)
  have "cv_y scenario_mem = [0]"
    by (simp add: scenario_mem_def)
  with rhs_failure_not_atomic [OF y' f1 f2] show ?thesis
    by simp
qed

subsection \<open>The linear setup and solve adapters\<close>

text \<open>
  C7. With an integrator memory, \<open>cvNlsLSetup\<close> and \<open>cvNlsLSolve\<close> turn the return
  code of the delegated routine into their own: a negative code into the fatal
  setup-failure (respectively solve-failure) code, a positive code into the recoverable
  convergence code, and zero into success.
\<close>

theorem linear_adapter_return_codes:
  "fst (cvNlsLSetup cv_lsetup ycor res jbad jcur (Some cv_mem)) =
     (let retval = fst (cv_lsetup (if jbad then cv_mem\<lparr>convfail := CV_FAIL_BAD_J\<rparr> else cv_mem))
      in if retval < 0 then CV_LSETUP_FAIL
         else if retval > 0 then SUN_NLS_CONV_RECVR
         else CV_SUCCESS) \<and>
   fst (cvNlsLSolve cv_lsolve ycor delta (Some cv_mem)) =
     (let retval = fst (cv_lsolve cv_mem delta)
      in if retval < 0 then CV_LSOLVE_FAIL
         else if retval > 0 then SUN_NLS_CONV_RECVR
         else CV_SUCCESS)"
  by (simp add: cvNlsLSetup_def cvNlsLSolve_def Let_def split: prod.splits)

text \<open>
  Delegated routines that return -3, 5 and 0.
\<close>

theorem linear_adapter_return_codes_witness:
  "fst (cvNlsLSetup (\<lambda>m. (- 3, m)) [0] [0] True False (Some scenario_mem)) = CV_LSETUP_FAIL \<and>
   fst (cvNlsLSolve (\<lambda>m d. (- 3, d, m)) [0] [0] (Some scenario_mem)) = CV_LSOLVE_FAIL \<and>
   fst (cvNlsLSetup (\<lambda>m. (5, m)) [0] [0] True False (Some scenario_mem)) = SUN_NLS_CONV_RECVR \<and>
   fst (cvNlsLSolve (\<lambda>m d. (5, d, m)) [0] [0] (Some scenario_mem)) = SUN_NLS_CONV_RECVR \<and>
   fst (cvNlsLSetup (\<lambda>m. (0, m)) [0] [0] True False (Some scenario_mem)) = CV_SUCCESS \<and>
   fst (cvNlsLSolve (\<lambda>m d. (0, d, m)) [0] [0] (Some scenario_mem)) = CV_SUCCESS"
  using linear_adapter_return_codes
      [where cv_lsetup = "\<lambda>m. (- 3, m)" and cv_lsolve = "\<lambda>m d. (- 3, d, m)" and jbad = True
         and cv_mem = scenario_mem and ycor = "[0]" and res = "[0]" and delta = "[0]" and jcur = False]
    linear_adapter_return_codes
      [where cv_lsetup = "\<lambda>m. (5, m)" and cv_lsolve = "\<lambda>m d. (5, d, m)" and jbad = True
         and cv_mem = scenario_mem and ycor = "[0]" and res = "[0]" and delta = "[0]" and jcur = False]
    linear_adapter_return_codes
      [where cv_lsetup = "\<lambda>m. (0, m)" and cv_lsolve = "\<lambda>m d. (0, d, m)" and jbad = True
         and cv_mem = scenario_mem and ycor = "[0]" and res = "[0]" and delta = "[0]" and jcur = False]
  by simp

text \<open>
  C8. With an integrator memory, and whatever code the delegated setup routine returns,
  \<open>cvNlsLSetup\<close> hands the routine's Jacobian-current flag to the caller, increments
  the setup counter of the memory that the routine returned by 1 (the 64-bit counter is
  one more in machine arithmetic, and its signed value is one more whenever it was
  below \<open>LONG_MAX\<close>), and leaves \<open>cv_gamrat\<close> and \<open>cv_crate\<close> equal to 1, \<open>cv_gammap\<close>
  equal to the current \<open>cv_gamma\<close> and \<open>cv_nstlp\<close> equal to the current \<open>cv_nst\<close>.
\<close>

theorem cvNlsLSetup_bookkeeping:
  assumes "cv_lsetup (if jbad then cv_mem\<lparr>convfail := CV_FAIL_BAD_J\<rparr> else cv_mem)
             = (retval, lmem)"
  shows "\<exists>r cv_mem'.
           cvNlsLSetup cv_lsetup ycor res jbad jcur (Some cv_mem)
             = (r, cv_jcur lmem, Some cv_mem') \<and>
           cv_nsetups cv_mem' = cv_nsetups lmem + 1 \<and>
           (sint (cv_nsetups lmem) < LONG_MAX \<longrightarrow>
              sint (cv_nsetups cv_mem') = sint (cv_nsetups lmem) + 1) \<and>
           cv_jcur cv_mem' = cv_jcur lmem \<and>
           cv_gamrat cv_mem' = 1 \<and> cv_crate cv_mem' = 1 \<and>
           cv_gamma cv_mem' = cv_gamma lmem \<and> cv_gammap cv_mem' = cv_gamma lmem \<and>
           cv_nst cv_mem' = cv_nst lmem \<and> cv_nstlp cv_mem' = cv_nst lmem"
  using assms
  by (simp add: cvNlsLSetup_def Let_def ONE_def sint_long_int_succ)

text \<open>
  A setup routine that fails fatally and sets the Jacobian-current flag; the setup
  counter goes from 6 to 7.
\<close>

theorem cvNlsLSetup_bookkeeping_witness:
  "sint (6 :: long_int) < LONG_MAX \<and>
   (\<exists>r cv_mem'.
     cvNlsLSetup (\<lambda>m. (- 1, m\<lparr>cv_jcur := True\<rparr>)) [0] [0] True False
       (Some (scenario_mem\<lparr>cv_crate := 1 / 2, cv_gamrat := 3, cv_gammap := 7,
                cv_nsetups := 6, cv_nst := 4\<rparr>))
       = (r, True, Some cv_mem') \<and>
     cv_nsetups cv_mem' = 7 \<and> sint (cv_nsetups cv_mem') = 7 \<and> cv_jcur cv_mem' \<and>
     cv_gamrat cv_mem' = 1 \<and> cv_crate cv_mem' = 1 \<and>
     cv_gamma cv_mem' = 1 / 10 \<and> cv_gammap cv_mem' = 1 / 10 \<and>
     cv_nst cv_mem' = 4 \<and> cv_nstlp cv_mem' = 4)"
proof -
  let ?m = "scenario_mem\<lparr>cv_crate := 1 / 2, cv_gamrat := 3, cv_gammap := 7,
              cv_nsetups := 6, cv_nst := 4\<rparr>"
  let ?ls = "\<lambda>m::CVodeMem. (- 1 :: int, m\<lparr>cv_jcur := True\<rparr>)"
  have below: "sint (6 :: long_int) < LONG_MAX"
    by (simp add: LONG_MAX_def)
  have "?ls (if True then ?m\<lparr>convfail := CV_FAIL_BAD_J\<rparr> else ?m)
          = (- 1, ?m\<lparr>convfail := CV_FAIL_BAD_J, cv_jcur := True\<rparr>)"
    by simp
  from cvNlsLSetup_bookkeeping
         [where cv_lsetup = ?ls and jbad = True and cv_mem = ?m and retval = "- 1"
            and lmem = "?m\<lparr>convfail := CV_FAIL_BAD_J, cv_jcur := True\<rparr>"
            and ycor = "[0]" and res = "[0]" and jcur = False, OF this]
    below
  show ?thesis
    by (auto simp add: scenario_mem_def)
qed

text \<open>At \<open>LONG_MAX\<close> the setup counter wraps to \<open>LONG_MIN\<close>.\<close>

lemma nsetups_wraps_at_LONG_MAX:
  "\<exists>r jcur' cv_mem'.
     cvNlsLSetup (\<lambda>m. (0, m)) [0] [0] False False
       (Some (scenario_mem\<lparr>cv_nsetups := word_of_int LONG_MAX\<rparr>))
       = (r, jcur', Some cv_mem') \<and> sint (cv_nsetups cv_mem') = LONG_MIN"
  by (simp add: cvNlsLSetup_def Let_def sint_long_int_wraps)

subsection \<open>The convergence test\<close>

text \<open>
  C1, as amended. For an iteration index \<open>m \<ge> 1\<close> with \<open>del > 2 * delp\<close>, the
  convergence test reports the recoverable-divergence code provided the convergence
  check before it fails, that is \<open>dcon = del * min(1, crate) / tol > 1\<close> with the
  updated \<open>crate\<close>. (Divisors are nonzero.)
\<close>

theorem divergence_only_after_failed_convergence:
  assumes "N_VWrmsNorm delta ewt = Some del" and "SUNNonlinSolGetCurIter nls = (0, m)"
    and "m \<ge> 1" and "del > 2 * delp" and "delp \<noteq> 0" and "tol \<noteq> 0"
    and "crate' = max (3 / 10 * cv_crate cv_mem) (del / delp)"
    and "del * min 1 crate' / tol > 1"
  shows "cvNlsConvTest nls ycor delta tol ewt (Some cv_mem) delp
           = Some (SUN_NLS_CONV_RECVR, Some (cv_mem\<lparr>cv_crate := crate'\<rparr>), delp)"
  using assms
  by (simp add: convtest_defs)

text \<open>
  The scenario \<open>m = 1\<close>, \<open>delp = 0.1\<close>, \<open>del = 0.3\<close> with the tolerance 0.05.
\<close>

theorem divergence_only_after_failed_convergence_witness:
  "cvNlsConvTest (solver_at 1) [0] [3 / 10] (1 / 20) [1] (Some scenario_mem) (1 / 10)
     = Some (SUN_NLS_CONV_RECVR, Some (scenario_mem\<lparr>cv_crate := 3\<rparr>), 1 / 10)"
proof -
  have n: "N_VWrmsNorm [3 / 10] [1] = Some (3 / 10)"
    by (simp add: N_VWrmsNorm_single)
  have c: "(3::real) = max (3 / 10 * cv_crate scenario_mem) (3 / 10 / (1 / 10))"
    by (simp add: scenario_mem_def)
  show ?thesis
    by (rule divergence_only_after_failed_convergence [OF n GetCurIter_solver_at _ _ _ _ c]) simp_all
qed

text \<open>
  C1 as stated fails: the same scenario with the tolerance 1 gives \<open>dcon = 0.3 \<le> 1\<close>,
  and the test reports success although \<open>del > 2 * delp\<close>.
\<close>

theorem divergence_regardless_of_tolerance_counterexample:
  "SUNNonlinSolGetCurIter (solver_at 1) = (0, 1) \<and>
   N_VWrmsNorm [3 / 10] [1] = Some (3 / 10) \<and> (3 / 10 :: real) > 2 * (1 / 10) \<and>
   cvNlsConvTest (solver_at 1) [0] [3 / 10] 1 [1] (Some scenario_mem) (1 / 10)
     = Some (CV_SUCCESS, Some (scenario_mem\<lparr>cv_crate := 3, cv_acnrm := 0\<rparr>), 1 / 10) \<and>
   CV_SUCCESS \<noteq> SUN_NLS_CONV_RECVR"
  by (simp add: convtest_defs N_VWrmsNorm_single GetCurIter_solver_at scenario_mem_def)

text \<open>
  Within one solve the premise on \<open>dcon\<close> holds by itself: when \<open>delp\<close> was left by a
  call that answered \<open>SUN_NLS_CONTINUE\<close> at the same positive tolerance, an increment
  norm above \<open>2 * delp\<close> is reported as divergence.
\<close>

lemma divergence_within_a_solve:
  assumes prev: "cvNlsConvTest nls0 ycor0 delta0 tol ewt0 (Some cv_mem0) delp0
                   = Some (SUN_NLS_CONTINUE, prev_mem, delp)"
    and tol: "0 < tol"
    and cur: "N_VWrmsNorm delta ewt = Some del" "SUNNonlinSolGetCurIter nls = (0, m)"
      "m \<ge> 1" "del > 2 * delp"
  shows "cvNlsConvTest nls ycor delta tol ewt (Some cv_mem) delp
           = Some (SUN_NLS_CONV_RECVR,
               Some (cv_mem\<lparr>cv_crate := max (3 / 10 * cv_crate cv_mem) (del / delp)\<rparr>), delp)"
proof -
  from prev tol have above: "tol < delp"
    by (rule continue_leaves_delp_above_tol)
  from dcon_exceeds_one [OF tol above cur(4), of "cv_crate cv_mem"]
  have "\<not> del * min 1 (max (3 / 10 * cv_crate cv_mem) (del / delp)) / tol \<le> 1"
    by simp
  with cur tol above show ?thesis
    by (simp add: convtest_defs)
qed

text \<open>
  C2, as amended. The convergence test writes \<open>crate\<close> only when \<open>m > 0\<close>, and then
  stores \<open>max(0.3 * crate, del / delp)\<close>. A positive \<open>crate\<close> stays positive. The stored
  value is not bounded by 1; the factor that enters the test is \<open>min(1, crate)\<close>,
  which is at most 1. (Divisors are nonzero and the norms are defined.)
\<close>

theorem crate_update:
  assumes "N_VWrmsNorm delta ewt = Some del" and "SUNNonlinSolGetCurIter nls = (0, m)"
    and "m > 0 \<longrightarrow> delp \<noteq> 0" and "tol \<noteq> 0"
    and "N_VWrmsNorm ycor (cv_ewt cv_mem) = Some nrm"
  shows "\<exists>r cv_mem' delp'.
           cvNlsConvTest nls ycor delta tol ewt (Some cv_mem) delp = Some (r, Some cv_mem', delp') \<and>
           cv_crate cv_mem' =
             (if m > 0 then max (3 / 10 * cv_crate cv_mem) (del / delp) else cv_crate cv_mem) \<and>
           (0 < cv_crate cv_mem \<longrightarrow> 0 < cv_crate cv_mem') \<and>
           min 1 (cv_crate cv_mem') \<le> 1 \<and>
           (r = CV_SUCCESS \<longleftrightarrow> del * min 1 (cv_crate cv_mem') / tol \<le> 1)"
proof -
  define c where
    "c = (if m > 0 then max (3 / 10 * cv_crate cv_mem) (del / delp) else cv_crate cv_mem)"
  define acnrm where
    "acnrm r = (if r = CV_SUCCESS then (if m = 0 then del else nrm) else cv_acnrm cv_mem)" for r
  have pos: "0 < cv_crate cv_mem \<longrightarrow> 0 < c"
    unfolding c_def using crate_floor_pos [of "cv_crate cv_mem" "del / delp"] by simp
  have "\<exists>r delp'.
          cvNlsConvTest nls ycor delta tol ewt (Some cv_mem) delp
            = Some (r, Some (cv_mem\<lparr>cv_crate := c, cv_acnrm := acnrm r\<rparr>), delp') \<and>
          (r = CV_SUCCESS \<longleftrightarrow> del * min 1 c / tol \<le> 1)"
    using assms unfolding c_def acnrm_def
    by (cases "m > 0") (simp_all add: convtest_defs)
  then obtain r delp' where
    "cvNlsConvTest nls ycor delta tol ewt (Some cv_mem) delp
       = Some (r, Some (cv_mem\<lparr>cv_crate := c, cv_acnrm := acnrm r\<rparr>), delp')"
    and "r = CV_SUCCESS \<longleftrightarrow> del * min 1 c / tol \<le> 1"
    by blast
  with pos show ?thesis
    unfolding c_def by (intro exI conjI) (assumption, simp_all)
qed

text \<open>
  The scenario \<open>m = 1\<close>, \<open>delp = 0.1\<close>, \<open>del = 0.2\<close>, \<open>tol = 0.05\<close>, \<open>crate = 1\<close>.
\<close>

theorem crate_update_witness:
  "\<exists>r cv_mem' delp'.
     cvNlsConvTest (solver_at 1) [0] [1 / 5] (1 / 20) [1] (Some scenario_mem) (1 / 10)
       = Some (r, Some cv_mem', delp') \<and>
     cv_crate cv_mem' = 2 \<and> r \<noteq> CV_SUCCESS"
proof -
  have n: "N_VWrmsNorm [1 / 5] [1] = Some (1 / 5)"
    by (simp add: N_VWrmsNorm_single)
  have y: "N_VWrmsNorm [0] (cv_ewt scenario_mem) = Some 0"
    by (simp add: N_VWrmsNorm_single scenario_mem_def)
  have d: "(1::int) > 0 \<longrightarrow> (1 / 10 :: real) \<noteq> 0" and t: "(1 / 20 :: real) \<noteq> 0"
    by simp_all
  from crate_update [OF n GetCurIter_solver_at d t y] show ?thesis
    by (auto simp add: scenario_mem_def)
qed

text \<open>
  C2 as stated fails: in that scenario the test stores \<open>crate = 2\<close>, which exceeds 1.
\<close>

theorem crate_exceeds_one_counterexample:
  "cv_crate scenario_mem = 1 \<and>
   cvNlsConvTest (solver_at 1) [0] [1 / 5] (1 / 20) [1] (Some scenario_mem) (1 / 10)
     = Some (SUN_NLS_CONTINUE, Some (scenario_mem\<lparr>cv_crate := 2\<rparr>), 1 / 5) \<and>
   \<not> cv_crate (scenario_mem\<lparr>cv_crate := 2\<rparr>) \<le> 1"
  by (simp add: convtest_defs N_VWrmsNorm_single GetCurIter_solver_at scenario_mem_def)

text \<open>
  C3, as amended. For the iteration index \<open>m = 0\<close> the convergence test does not read
  \<open>delp\<close>: the return code and the integrator memory are the same for any two values
  of it. The decision compares \<open>dcon = del * min(1, crate) / tol\<close> with 1, where
  \<open>crate\<close> is the stored value, which the test does not reset; \<open>dcon\<close> is \<open>del / tol\<close>
  when the stored \<open>crate\<close> is at least 1. (The tolerance is nonzero.)
\<close>

theorem first_iteration_decision:
  assumes "N_VWrmsNorm delta ewt = Some del" and "SUNNonlinSolGetCurIter nls = (0, 0)"
    and "tol \<noteq> 0"
  shows "cvNlsConvTest nls ycor delta tol ewt (Some cv_mem) delp =
           (if del * min 1 (cv_crate cv_mem) / tol \<le> 1
            then Some (CV_SUCCESS, Some (cv_mem\<lparr>cv_acnrm := del\<rparr>), delp)
            else Some (SUN_NLS_CONTINUE, Some cv_mem, del)) \<and>
         map_option (\<lambda>(r, cv_mem', delp'). (r, cv_mem'))
             (cvNlsConvTest nls ycor delta tol ewt (Some cv_mem) delp) =
           map_option (\<lambda>(r, cv_mem', delp'). (r, cv_mem'))
             (cvNlsConvTest nls ycor delta tol ewt (Some cv_mem) delp_other) \<and>
         (1 \<le> cv_crate cv_mem \<longrightarrow> del * min 1 (cv_crate cv_mem) / tol = del / tol)"
  using assms
  by (simp add: convtest_defs)

text \<open>
  The scenario of the spec: \<open>tol = 1\<close>, weight 1, \<open>m = 0\<close>, \<open>del = 0.5\<close>, stored
  \<open>crate = 1\<close>: converged, with the accumulated norm 0.5.
\<close>

theorem first_iteration_decision_witness:
  "cvNlsConvTest (solver_at 0) [0] [1 / 2] 1 [1] (Some scenario_mem) 7
     = Some (CV_SUCCESS, Some (scenario_mem\<lparr>cv_acnrm := 1 / 2\<rparr>), 7) \<and>
   map_option (\<lambda>(r, cv_mem', delp'). (r, cv_mem'))
       (cvNlsConvTest (solver_at 0) [0] [1 / 2] 1 [1] (Some scenario_mem) 7) =
     map_option (\<lambda>(r, cv_mem', delp'). (r, cv_mem'))
       (cvNlsConvTest (solver_at 0) [0] [1 / 2] 1 [1] (Some scenario_mem) 0)"
proof -
  have n: "N_VWrmsNorm [1 / 2] [1] = Some (1 / 2)"
    by (simp add: N_VWrmsNorm_single)
  have t: "(1::real) \<noteq> 0"
    by simp
  from first_iteration_decision
         [OF n GetCurIter_solver_at t,
          where ycor = "[0]" and cv_mem = scenario_mem and delp = 7 and delp_other = 0]
  moreover have "cv_crate scenario_mem = 1"
    by (simp add: scenario_mem_def)
  ultimately show ?thesis
    by (elim conjE) simp
qed

text \<open>
  C3 as stated fails: with the stored \<open>crate = 0.5\<close>, \<open>m = 0\<close>, \<open>del = 1.5\<close> and
  \<open>tol = 1\<close> the test reports success, although \<open>del / tol = 1.5\<close> exceeds 1.
\<close>

theorem first_iteration_uses_crate_counterexample:
  "SUNNonlinSolGetCurIter (solver_at 0) = (0, 0) \<and>
   N_VWrmsNorm [3 / 2] [1] = Some (3 / 2) \<and>
   cvNlsConvTest (solver_at 0) [0] [3 / 2] 1 [1] (Some (scenario_mem\<lparr>cv_crate := 1 / 2\<rparr>)) 0
     = Some (CV_SUCCESS, Some (scenario_mem\<lparr>cv_crate := 1 / 2, cv_acnrm := 3 / 2\<rparr>), 0) \<and>
   \<not> (3 / 2 / 1 \<le> (1::real))"
  by (simp add: convtest_defs N_VWrmsNorm_single GetCurIter_solver_at scenario_mem_def)

subsection \<open>Installing a nonlinear solver\<close>

text \<open>
  C10. When \<open>CVodeSetNonlinearSolver\<close> rejects a candidate whose declared type is
  neither root-finding nor fixed-point, it returns the illegal-input code after the
  previously installed solver has been released and the candidate has been stored in
  the integrator memory. A rejection for a \<open>NULL\<close> candidate or for a missing
  mandatory operation leaves the integrator memory and the solver objects as they were.
\<close>

theorem replacement_precedes_type_rejection:
  assumes cand: "heap a = Some obj"
    and caps: "gettype (ops obj) = Some gt" "initialize (ops obj) \<noteq> None"
      "solve (ops obj) \<noteq> None" "free (ops obj) \<noteq> None" "setsysfn (ops obj) \<noteq> None"
    and ty: "gt (content obj) = SUNNONLINEARSOLVER_OTHER v"
    and old: "NLS cv_mem = Some old" "old \<noteq> a" "heap old = Some oldobj"
      "free (ops oldobj) \<noteq> None"
  shows "CVodeSetNonlinearSolver (Some cv_mem) (Some a) heap
           = Some (CV_ILL_INPUT, Some (cv_mem\<lparr>NLS := Some a\<rparr>), heap(old := None)) \<and>
         CVodeSetNonlinearSolver (Some cv_mem) None heap
           = Some (CV_ILL_INPUT, Some cv_mem, heap) \<and>
         (\<forall>b objb. heap b = Some objb \<and>
            (gettype (ops objb) = None \<or> initialize (ops objb) = None \<or>
             solve (ops objb) = None \<or> free (ops objb) = None \<or> setsysfn (ops objb) = None)
            \<longrightarrow> CVodeSetNonlinearSolver (Some cv_mem) (Some b) heap
                  = Some (CV_ILL_INPUT, Some cv_mem, heap))"
proof (intro conjI allI impI)
  show "CVodeSetNonlinearSolver (Some cv_mem) (Some a) heap
          = Some (CV_ILL_INPUT, Some (cv_mem\<lparr>NLS := Some a\<rparr>), heap(old := None))"
    using assms
    by (auto simp add: CVodeSetNonlinearSolver_def SUNNonlinSolFree_def SUNNonlinSolGetType_def)
next
  show "CVodeSetNonlinearSolver (Some cv_mem) None heap = Some (CV_ILL_INPUT, Some cv_mem, heap)"
    by (simp add: CVodeSetNonlinearSolver_def)
next
  fix b objb
  assume "heap b = Some objb \<and>
    (gettype (ops objb) = None \<or> initialize (ops objb) = None \<or>
     solve (ops objb) = None \<or> free (ops objb) = None \<or> setsysfn (ops objb) = None)"
  then show "CVodeSetNonlinearSolver (Some cv_mem) (Some b) heap
               = Some (CV_ILL_INPUT, Some cv_mem, heap)"
    by (auto simp add: CVodeSetNonlinearSolver_def)
qed

text \<open>
  The example objects: the candidate at address 1 is rejected for its type, after
  the solver at address 0 has been released; the \<open>NULL\<close> candidate and the
  candidate at address 2 are rejected with nothing changed.
\<close>

theorem replacement_precedes_type_rejection_witness:
  "CVodeSetNonlinearSolver (Some (scenario_mem\<lparr>NLS := Some 0\<rparr>)) (Some 1) example_heap
     = Some (CV_ILL_INPUT, Some (scenario_mem\<lparr>NLS := Some 1\<rparr>), example_heap(0 := None)) \<and>
   CVodeSetNonlinearSolver (Some (scenario_mem\<lparr>NLS := Some 0\<rparr>)) None example_heap
     = Some (CV_ILL_INPUT, Some (scenario_mem\<lparr>NLS := Some 0\<rparr>), example_heap) \<and>
   CVodeSetNonlinearSolver (Some (scenario_mem\<lparr>NLS := Some 0\<rparr>)) (Some 2) example_heap
     = Some (CV_ILL_INPUT, Some (scenario_mem\<lparr>NLS := Some 0\<rparr>), example_heap)"
proof -
  let ?cand = "\<lparr>content = 0, ops = solver_ops (SUNNONLINEARSOLVER_OTHER 7)\<rparr>"
  let ?bad = "\<lparr>content = 0, ops = (solver_ops SUNNONLINEARSOLVER_ROOTFIND)\<lparr>solve := None\<rparr>\<rparr>"
  have cand: "example_heap 1 = Some ?cand"
    by (simp add: example_heap_def)
  have caps: "gettype (ops ?cand) = Some (\<lambda>c. SUNNONLINEARSOLVER_OTHER 7)"
    "initialize (ops ?cand) \<noteq> None" "solve (ops ?cand) \<noteq> None"
    "free (ops ?cand) \<noteq> None" "setsysfn (ops ?cand) \<noteq> None"
    by (simp_all add: solver_ops_def)
  have ty: "(\<lambda>c::int. SUNNONLINEARSOLVER_OTHER 7) (content ?cand) = SUNNONLINEARSOLVER_OTHER 7"
    by simp
  have old: "NLS (scenario_mem\<lparr>NLS := Some 0\<rparr>) = Some 0" "(0::nat) \<noteq> 1"
    "example_heap 0 = Some (solver_at 0)" "free (ops (solver_at 0)) \<noteq> None"
    by (simp_all add: example_heap_def solver_at_def solver_ops_def)
  have bad: "example_heap 2 = Some ?bad \<and>
    (gettype (ops ?bad) = None \<or> initialize (ops ?bad) = None \<or>
     solve (ops ?bad) = None \<or> free (ops ?bad) = None \<or> setsysfn (ops ?bad) = None)"
    by (simp add: example_heap_def)
  from replacement_precedes_type_rejection [OF cand caps ty old] bad show ?thesis
    by (elim conjE allE [where x = 2]) auto
qed

end
